theory Spec2Isabelle
  imports Main "HOL-Library.Sublist"
begin

section \<open>The cart reducer of the CartProvider component\<close>

text \<open>
  The development embeds \<^verbatim>\<open>cartReducer\<close> of
  \<^verbatim>\<open>packages/hydrogen/src/components/CartProvider/CartProvider.client.tsx\<close>.
  The reducer takes the current state object and an action object and either returns a
  new state object or throws.
\<close>

subsection \<open>Data\<close>

text \<open>
  A cart line as the reducer reads it: the fields \<^verbatim>\<open>id\<close> and \<^verbatim>\<open>quantity\<close>.
  Every other field of the object lives in the record's extension, so the spread
  \<^verbatim>\<open>{...line, quantity: q}\<close> is the record update of \<open>quantity\<close>.
  The field \<^verbatim>\<open>id\<close> is named \<open>id_line\<close> here (\<open>id\<close> is the identity of HOL).
  A quantity is an \<^verbatim>\<open>Int\<close> of the GraphQL schema, an integer here.
\<close>

record cart_line =
  id_line :: string
  quantity :: int

text \<open>
  A cart: the reducer reads \<^verbatim>\<open>lines\<close> only; identity, attributes, note and buyer
  identity live in the extension and are carried by \<^verbatim>\<open>{...state.cart, lines: ls}\<close>.
\<close>

record 'l cart =
  lines :: "'l cart_line_scheme list"

text \<open>
  An entry of the \<^verbatim>\<open>updateLineItem\<close> action (\<^verbatim>\<open>CartLineUpdateInput\<close>): an
  \<^verbatim>\<open>id\<close> and an optional \<^verbatim>\<open>quantity\<close>; \<open>None\<close> is \<^verbatim>\<open>undefined\<close>. The
  fields are named \<open>id_input\<close> and \<open>quantity_input\<close> here, apart from those of a
  cart line. The reducer reads no other field of an entry.
\<close>

record cart_line_update =
  id_input :: string
  quantity_input :: "int option"

text \<open>
  Modelled from the spec: the declaration of \<^verbatim>\<open>State\<close> in \<^verbatim>\<open>./types\<close> is not
  part of the sources at hand. A state is the object the reducer builds and reads: the
  key \<^verbatim>\<open>status\<close> and the optional keys \<^verbatim>\<open>cart\<close>, \<^verbatim>\<open>lastValidCart\<close> and
  \<^verbatim>\<open>error\<close>; \<open>None\<close> is an absent key.
\<close>

record ('l, 'm, 'e) state =
  status :: string
  cart :: "('l, 'm) cart_scheme option"
  lastValidCart :: "('l, 'm) cart_scheme option"
  error :: "'e option"

text \<open>
  Modelled from the spec: the declaration of \<^verbatim>\<open>CartAction\<close> in \<^verbatim>\<open>./types\<close> is
  not part of the sources at hand. The constructors are the twelve cases of the
  reducer's \<^verbatim>\<open>switch (action.type)\<close>, each with the payload that case reads.
\<close>

datatype ('l, 'm, 'e) action =
    CartFetch
  | CartCreate
  | Resolve "('l, 'm) cart_scheme"
  | Reject 'e
  | ResetCart
  | AddLineItem
  | RemoveLineItem "string list"
  | UpdateLineItem "cart_line_update list"
  | NoteUpdate
  | BuyerIdentityUpdate
  | CartAttributesUpdate
  | DiscountCodesUpdate

text \<open>The value of \<^verbatim>\<open>action.type\<close>.\<close>

fun action_type :: "('l, 'm, 'e) action \<Rightarrow> string" where
  "action_type CartFetch = ''cartFetch''"
| "action_type CartCreate = ''cartCreate''"
| "action_type (Resolve c) = ''resolve''"
| "action_type (Reject e) = ''reject''"
| "action_type ResetCart = ''resetCart''"
| "action_type AddLineItem = ''addLineItem''"
| "action_type (RemoveLineItem ids) = ''removeLineItem''"
| "action_type (UpdateLineItem us) = ''updateLineItem''"
| "action_type NoteUpdate = ''noteUpdate''"
| "action_type BuyerIdentityUpdate = ''buyerIdentityUpdate''"
| "action_type CartAttributesUpdate = ''cartAttributesUpdate''"
| "action_type DiscountCodesUpdate = ''discountCodesUpdate''"

text \<open>
  What the reducer throws: the \<^verbatim>\<open>Error\<close> of its last statement with its message, or
  the \<^verbatim>\<open>TypeError\<close> of reading \<^verbatim>\<open>state.cart.lines\<close> on a state without a cart.
\<close>

datatype exn = Error string | TypeError

subsection \<open>The reducer\<close>

text \<open>
  The \<^verbatim>\<open>throw\<close> that ends the reducer, reached by the \<^verbatim>\<open>break\<close> of every case whose
  test on \<^verbatim>\<open>state.status\<close> fails.
\<close>

definition invalid_transition ::
  "('l, 'm, 'e) state \<Rightarrow> ('l, 'm, 'e) action \<Rightarrow> exn + ('l, 'm, 'e) state" where
  "invalid_transition s a =
     Inl (Error (''Cannot dispatch event ('' @ action_type a @
                 '') for current cart state ('' @ status s @ '')''))"

definition resolvableStatuses :: "string list" where
  "resolvableStatuses = [''updating'', ''fetching'', ''creating'']"

text \<open>
  The callback of \<^verbatim>\<open>state.cart.lines.map\<close> in the case \<^verbatim>\<open>updateLineItem\<close>:
  \<^verbatim>\<open>find\<close> gives the first entry with the line's id; the test
  \<^verbatim>\<open>updatedLine && updatedLine.quantity\<close> holds when an entry was found and its
  quantity is neither \<^verbatim>\<open>undefined\<close> nor 0.
\<close>

definition update_line ::
  "cart_line_update list \<Rightarrow> 'l cart_line_scheme \<Rightarrow> 'l cart_line_scheme" where
  "update_line us line =
     (case find (\<lambda>u. id_input u = id_line line) us of
        None \<Rightarrow> line
      | Some updatedLine \<Rightarrow>
          (case quantity_input updatedLine of
             None \<Rightarrow> line
           | Some q \<Rightarrow> if q \<noteq> 0 then line\<lparr>quantity := q\<rparr> else line))"

text \<open>
  The reducer, one equation for each case of the \<^verbatim>\<open>switch\<close>. A returned object has
  the keys its literal lists; the others are absent. In the cases \<^verbatim>\<open>removeLineItem\<close>
  and \<^verbatim>\<open>updateLineItem\<close> the source reads \<^verbatim>\<open>state.cart.lines\<close>, a
  \<^verbatim>\<open>TypeError\<close> on a state object that has no cart.
\<close>

fun cartReducer ::
  "('l, 'm, 'e) state \<Rightarrow> ('l, 'm, 'e) action \<Rightarrow> exn + ('l, 'm, 'e) state" where
  "cartReducer s CartFetch =
     (if status s = ''uninitialized''
      then Inr \<lparr>status = ''fetching'', cart = None, lastValidCart = None, error = None\<rparr>
      else invalid_transition s CartFetch)"
| "cartReducer s CartCreate =
     (if status s = ''uninitialized''
      then Inr \<lparr>status = ''creating'', cart = None, lastValidCart = None, error = None\<rparr>
      else invalid_transition s CartCreate)"
| "cartReducer s (Resolve c) =
     (if status s \<in> set resolvableStatuses
      then Inr \<lparr>status = ''idle'', cart = Some c, lastValidCart = None, error = None\<rparr>
      else invalid_transition s (Resolve c))"
| "cartReducer s (Reject e) =
     (if status s = ''fetching'' \<or> status s = ''creating''
      then Inr \<lparr>status = ''uninitialized'', cart = None, lastValidCart = None,
                error = Some e\<rparr>
      else if status s = ''updating''
      then Inr \<lparr>status = ''idle'', cart = lastValidCart s, lastValidCart = None,
                error = Some e\<rparr>
      else invalid_transition s (Reject e))"
| "cartReducer s ResetCart =
     (if status s = ''fetching''
      then Inr \<lparr>status = ''uninitialized'', cart = None, lastValidCart = None,
                error = None\<rparr>
      else invalid_transition s ResetCart)"
| "cartReducer s AddLineItem =
     (if status s = ''idle''
      then Inr \<lparr>status = ''updating'', cart = cart s, lastValidCart = cart s,
                error = None\<rparr>
      else invalid_transition s AddLineItem)"
| "cartReducer s (RemoveLineItem ids) =
     (if status s = ''idle''
      then (case cart s of
              None \<Rightarrow> Inl TypeError
            | Some c \<Rightarrow>
                Inr \<lparr>status = ''updating'',
                     cart = Some (c\<lparr>lines := filter (\<lambda>l. id_line l \<notin> set ids) (lines c)\<rparr>),
                     lastValidCart = cart s, error = None\<rparr>)
      else invalid_transition s (RemoveLineItem ids))"
| "cartReducer s (UpdateLineItem us) =
     (if status s = ''idle''
      then (case cart s of
              None \<Rightarrow> Inl TypeError
            | Some c \<Rightarrow>
                Inr \<lparr>status = ''updating'',
                     cart = Some (c\<lparr>lines := map (update_line us) (lines c)\<rparr>),
                     lastValidCart = cart s, error = None\<rparr>)
      else invalid_transition s (UpdateLineItem us))"
| "cartReducer s NoteUpdate =
     (if status s = ''idle''
      then Inr \<lparr>status = ''updating'', cart = cart s, lastValidCart = cart s,
                error = None\<rparr>
      else invalid_transition s NoteUpdate)"
| "cartReducer s BuyerIdentityUpdate =
     (if status s = ''idle''
      then Inr \<lparr>status = ''updating'', cart = cart s, lastValidCart = cart s,
                error = None\<rparr>
      else invalid_transition s BuyerIdentityUpdate)"
| "cartReducer s CartAttributesUpdate =
     (if status s = ''idle''
      then Inr \<lparr>status = ''updating'', cart = cart s, lastValidCart = cart s,
                error = None\<rparr>
      else invalid_transition s CartAttributesUpdate)"
| "cartReducer s DiscountCodesUpdate =
     (if status s = ''idle''
      then Inr \<lparr>status = ''updating'', cart = cart s, lastValidCart = cart s,
                error = None\<rparr>
      else invalid_transition s DiscountCodesUpdate)"


subsection \<open>The documented transition table and the shape of a state\<close>

text \<open>
  The table of permitted transitions, written from the specification's words (not from
  the reducer): \<^verbatim>\<open>cartFetch\<close> and \<^verbatim>\<open>cartCreate\<close> in \<^verbatim>\<open>uninitialized\<close>;
  \<^verbatim>\<open>resolve\<close> in \<^verbatim>\<open>updating\<close>, \<^verbatim>\<open>fetching\<close>, \<^verbatim>\<open>creating\<close>; \<^verbatim>\<open>reject\<close> in
  \<^verbatim>\<open>fetching\<close>, \<^verbatim>\<open>creating\<close>, \<^verbatim>\<open>updating\<close>; \<^verbatim>\<open>resetCart\<close> in \<^verbatim>\<open>fetching\<close>;
  the seven mutating actions in \<^verbatim>\<open>idle\<close>.
\<close>

fun permitted :: "string \<Rightarrow> ('l, 'm, 'e) action \<Rightarrow> bool" where
  "permitted st CartFetch = (st = ''uninitialized'')"
| "permitted st CartCreate = (st = ''uninitialized'')"
| "permitted st (Resolve c) = (st = ''updating'' \<or> st = ''fetching'' \<or> st = ''creating'')"
| "permitted st (Reject e) = (st = ''fetching'' \<or> st = ''creating'' \<or> st = ''updating'')"
| "permitted st ResetCart = (st = ''fetching'')"
| "permitted st AddLineItem = (st = ''idle'')"
| "permitted st (RemoveLineItem ids) = (st = ''idle'')"
| "permitted st (UpdateLineItem us) = (st = ''idle'')"
| "permitted st NoteUpdate = (st = ''idle'')"
| "permitted st BuyerIdentityUpdate = (st = ''idle'')"
| "permitted st CartAttributesUpdate = (st = ''idle'')"
| "permitted st DiscountCodesUpdate = (st = ''idle'')"

text \<open>The seven mutating actions.\<close>

fun mutating :: "('l, 'm, 'e) action \<Rightarrow> bool" where
  "mutating AddLineItem = True"
| "mutating (RemoveLineItem ids) = True"
| "mutating (UpdateLineItem us) = True"
| "mutating NoteUpdate = True"
| "mutating BuyerIdentityUpdate = True"
| "mutating CartAttributesUpdate = True"
| "mutating DiscountCodesUpdate = True"
| "mutating a = False"

text \<open>
  Modelled from the spec: the tagged union \<^verbatim>\<open>State\<close> of \<^verbatim>\<open>./types\<close> (not part of
  the sources at hand) as a predicate on state objects. The status is one of the five
  phases and the payload is the phase's: \<^verbatim>\<open>uninitialized\<close> carries at most an error,
  \<^verbatim>\<open>fetching\<close> and \<^verbatim>\<open>creating\<close> carry nothing, \<^verbatim>\<open>idle\<close> carries a cart and possibly
  an error, \<^verbatim>\<open>updating\<close> carries a cart and a last valid cart.
\<close>

definition wf_state :: "('l, 'm, 'e) state \<Rightarrow> bool" where
  "wf_state s =
     (if status s = ''uninitialized'' then cart s = None \<and> lastValidCart s = None
      else if status s = ''fetching'' \<or> status s = ''creating''
        then cart s = None \<and> lastValidCart s = None \<and> error s = None
      else if status s = ''idle'' then cart s \<noteq> None \<and> lastValidCart s = None
      else if status s = ''updating''
        then cart s \<noteq> None \<and> lastValidCart s \<noteq> None \<and> error s = None
      else False)"

text \<open>The reducer returns a state: it does not throw.\<close>

definition succeeds :: "('l, 'm, 'e) state \<Rightarrow> ('l, 'm, 'e) action \<Rightarrow> bool" where
  "succeeds s a = (case cartReducer s a of Inl x \<Rightarrow> False | Inr s' \<Rightarrow> True)"

subsection \<open>The reducer on a store of objects\<close>

text \<open>
  The reducer works on JavaScript objects, which are references: the state, its carts, a
  cart's array of lines, each line, the action, its array and the entries of that array.
  The second model keeps every such object in a store, a list of objects addressed by
  position, so that what the reducer writes and what it shares is explicit.
\<close>

type_synonym addr = nat

text \<open>
  The action object: its \<^verbatim>\<open>type\<close> and, by reference, its \<^verbatim>\<open>cart\<close> or
  \<^verbatim>\<open>lines\<close>; the \<^verbatim>\<open>error\<close> is an opaque value.
\<close>

datatype 'e action_obj =
    CartFetchO
  | CartCreateO
  | ResolveO addr
  | RejectO 'e
  | ResetCartO
  | AddLineItemO
  | RemoveLineItemO addr
  | UpdateLineItemO addr
  | NoteUpdateO
  | BuyerIdentityUpdateO
  | CartAttributesUpdateO
  | DiscountCodesUpdateO

text \<open>
  The objects of the store: a state (status, the optional references \<^verbatim>\<open>cart\<close> and
  \<^verbatim>\<open>lastValidCart\<close>, the optional \<^verbatim>\<open>error\<close>), a cart (the reference to its array
  of lines, and its other fields), a line (\<^verbatim>\<open>id\<close>, \<^verbatim>\<open>quantity\<close>, its other fields),
  an array of references, an array of strings, an entry of \<^verbatim>\<open>updateLineItem\<close>
  (\<^verbatim>\<open>id\<close>, optional \<^verbatim>\<open>quantity\<close>) and an action.
\<close>

datatype ('l, 'm, 'e) obj =
    StateObj string "addr option" "addr option" "'e option"
  | CartObj addr 'm
  | LineObj string int 'l
  | RefArray "addr list"
  | StringArray "string list"
  | UpdateObj string "int option"
  | ActionObj "'e action_obj"

type_synonym ('l, 'm, 'e) heap = "('l, 'm, 'e) obj list"

text \<open>
  Reading an address, and allocating: a new object takes the next free address and no
  existing object moves or changes.
\<close>

definition lookup :: "('l, 'm, 'e) heap \<Rightarrow> addr \<Rightarrow> ('l, 'm, 'e) obj option" where
  "lookup h p = (if p < length h then Some (h ! p) else None)"

definition alloc :: "('l, 'm, 'e) heap \<Rightarrow> ('l, 'm, 'e) obj \<Rightarrow> addr \<times> ('l, 'm, 'e) heap" where
  "alloc h ob = (length h, h @ [ob])"

text \<open>
  Reading an object of a given kind. \<open>None\<close>: the address holds no object of that
  kind, which the types \<^verbatim>\<open>State\<close> and \<^verbatim>\<open>CartAction\<close> exclude.
\<close>

definition get_state ::
  "('l, 'm, 'e) heap \<Rightarrow> addr \<Rightarrow> (string \<times> addr option \<times> addr option \<times> 'e option) option" where
  "get_state h p = (case lookup h p of Some (StateObj st c lv e) \<Rightarrow> Some (st, c, lv, e) | _ \<Rightarrow> None)"

definition get_cart :: "('l, 'm, 'e) heap \<Rightarrow> addr \<Rightarrow> (addr \<times> 'm) option" where
  "get_cart h p = (case lookup h p of Some (CartObj la m) \<Rightarrow> Some (la, m) | _ \<Rightarrow> None)"

definition get_line :: "('l, 'm, 'e) heap \<Rightarrow> addr \<Rightarrow> (string \<times> int \<times> 'l) option" where
  "get_line h p = (case lookup h p of Some (LineObj i q l) \<Rightarrow> Some (i, q, l) | _ \<Rightarrow> None)"

definition get_refs :: "('l, 'm, 'e) heap \<Rightarrow> addr \<Rightarrow> addr list option" where
  "get_refs h p = (case lookup h p of Some (RefArray ps) \<Rightarrow> Some ps | _ \<Rightarrow> None)"

definition get_strings :: "('l, 'm, 'e) heap \<Rightarrow> addr \<Rightarrow> string list option" where
  "get_strings h p = (case lookup h p of Some (StringArray ss) \<Rightarrow> Some ss | _ \<Rightarrow> None)"

definition get_update :: "('l, 'm, 'e) heap \<Rightarrow> addr \<Rightarrow> (string \<times> int option) option" where
  "get_update h p = (case lookup h p of Some (UpdateObj i q) \<Rightarrow> Some (i, q) | _ \<Rightarrow> None)"

definition get_action :: "('l, 'm, 'e) heap \<Rightarrow> addr \<Rightarrow> 'e action_obj option" where
  "get_action h p = (case lookup h p of Some (ActionObj a) \<Rightarrow> Some a | _ \<Rightarrow> None)"

fun action_obj_type :: "'e action_obj \<Rightarrow> string" where
  "action_obj_type CartFetchO = ''cartFetch''"
| "action_obj_type CartCreateO = ''cartCreate''"
| "action_obj_type (ResolveO c) = ''resolve''"
| "action_obj_type (RejectO e) = ''reject''"
| "action_obj_type ResetCartO = ''resetCart''"
| "action_obj_type AddLineItemO = ''addLineItem''"
| "action_obj_type (RemoveLineItemO ids) = ''removeLineItem''"
| "action_obj_type (UpdateLineItemO us) = ''updateLineItem''"
| "action_obj_type NoteUpdateO = ''noteUpdate''"
| "action_obj_type BuyerIdentityUpdateO = ''buyerIdentityUpdate''"
| "action_obj_type CartAttributesUpdateO = ''cartAttributesUpdate''"
| "action_obj_type DiscountCodesUpdateO = ''discountCodesUpdate''"

text \<open>
  A run of the reducer on the store: the thrown error or the address of the returned
  state, with the store after the run; \<open>None\<close> when the store is not of the types the
  reducer is declared on.
\<close>

type_synonym ('l, 'm, 'e) outcome = "((exn + addr) \<times> ('l, 'm, 'e) heap) option"

definition throw_invalid ::
  "('l, 'm, 'e) heap \<Rightarrow> string \<Rightarrow> 'e action_obj \<Rightarrow> ('l, 'm, 'e) outcome" where
  "throw_invalid h st a =
     Some (Inl (Error (''Cannot dispatch event ('' @ action_obj_type a @
                       '') for current cart state ('' @ st @ '')'')), h)"

definition return_new ::
  "('l, 'm, 'e) heap \<Rightarrow> ('l, 'm, 'e) obj \<Rightarrow> ('l, 'm, 'e) outcome" where
  "return_new h ob = (case alloc h ob of (p, h') \<Rightarrow> Some (Inr p, h'))"

text \<open>
  \<^verbatim>\<open>state.cart.lines.filter(({id}) => !action.lines.includes(id))\<close>: the callback reads
  each line's \<^verbatim>\<open>id\<close>; the result lists the references that are kept.
\<close>

fun filter_h :: "('l, 'm, 'e) heap \<Rightarrow> string list \<Rightarrow> addr list \<Rightarrow> addr list option" where
  "filter_h h ids [] = Some []"
| "filter_h h ids (p # ps) =
     (case get_line h p of
        None \<Rightarrow> None
      | Some (i, q, l) \<Rightarrow>
          (case filter_h h ids ps of
             None \<Rightarrow> None
           | Some r \<Rightarrow> Some (if i \<notin> set ids then p # r else r)))"

text \<open>
  \<^verbatim>\<open>action.lines.find(({id}) => id === line.id)\<close>: the first entry with the id, read up
  to that entry.
\<close>

fun find_h ::
  "('l, 'm, 'e) heap \<Rightarrow> string \<Rightarrow> addr list \<Rightarrow> (string \<times> int option) option option" where
  "find_h h i [] = Some None"
| "find_h h i (u # us) =
     (case get_update h u of
        None \<Rightarrow> None
      | Some (j, q) \<Rightarrow> if j = i then Some (Some (j, q)) else find_h h i us)"

text \<open>
  The callback of \<^verbatim>\<open>state.cart.lines.map\<close>: a new line object
  \<^verbatim>\<open>{...line, quantity: updatedLine.quantity}\<close> when an entry is found and its quantity
  is truthy, the line's own reference otherwise. \<open>map_h\<close> runs it along the array.
\<close>

definition update_line_h ::
  "('l, 'm, 'e) heap \<Rightarrow> addr list \<Rightarrow> addr \<Rightarrow> (addr \<times> ('l, 'm, 'e) heap) option" where
  "update_line_h h us p =
     (case get_line h p of
        None \<Rightarrow> None
      | Some (i, q, l) \<Rightarrow>
          (case find_h h i us of
             None \<Rightarrow> None
           | Some None \<Rightarrow> Some (p, h)
           | Some (Some (j, None)) \<Rightarrow> Some (p, h)
           | Some (Some (j, Some q')) \<Rightarrow>
               if q' \<noteq> 0 then Some (alloc h (LineObj i q' l)) else Some (p, h)))"

fun map_h ::
  "('l, 'm, 'e) heap \<Rightarrow> addr list \<Rightarrow> addr list \<Rightarrow> (addr list \<times> ('l, 'm, 'e) heap) option" where
  "map_h h us [] = Some ([], h)"
| "map_h h us (p # ps) =
     (case update_line_h h us p of
        None \<Rightarrow> None
      | Some (p', h1) \<Rightarrow>
          (case map_h h1 us ps of
             None \<Rightarrow> None
           | Some (r, h2) \<Rightarrow> Some (p' # r, h2)))"

text \<open>
  The body that the cases \<^verbatim>\<open>addLineItem\<close>, \<^verbatim>\<open>noteUpdate\<close>,
  \<^verbatim>\<open>buyerIdentityUpdate\<close>, \<^verbatim>\<open>cartAttributesUpdate\<close> and \<^verbatim>\<open>discountCodesUpdate\<close>
  repeat: \<^verbatim>\<open>cart\<close> and \<^verbatim>\<open>lastValidCart\<close> of the new state are the reference
  \<^verbatim>\<open>state.cart\<close>.
\<close>

definition keep_cart_h ::
  "('l, 'm, 'e) heap \<Rightarrow> string \<Rightarrow> addr option \<Rightarrow> 'e action_obj \<Rightarrow> ('l, 'm, 'e) outcome" where
  "keep_cart_h h st c a =
     (if st = ''idle'' then return_new h (StateObj ''updating'' c c None)
      else throw_invalid h st a)"

text \<open>
  The reducer on the store, case by case as in the source. Every object literal of the
  source is an allocation; the source has no assignment to a property.
\<close>

definition cartReducer_h ::
  "('l, 'm, 'e) heap \<Rightarrow> addr \<Rightarrow> addr \<Rightarrow> ('l, 'm, 'e) outcome" where
  "cartReducer_h h sp ap =
     (case get_state h sp of
        None \<Rightarrow> None
      | Some (st, c, lv, e) \<Rightarrow>
     (case get_action h ap of
        None \<Rightarrow> None
      | Some a \<Rightarrow>
     (case a of
        CartFetchO \<Rightarrow>
          if st = ''uninitialized'' then return_new h (StateObj ''fetching'' None None None)
          else throw_invalid h st a
      | CartCreateO \<Rightarrow>
          if st = ''uninitialized'' then return_new h (StateObj ''creating'' None None None)
          else throw_invalid h st a
      | ResolveO cp \<Rightarrow>
          if st \<in> set resolvableStatuses
          then return_new h (StateObj ''idle'' (Some cp) None None)
          else throw_invalid h st a
      | RejectO err \<Rightarrow>
          if st = ''fetching'' \<or> st = ''creating''
          then return_new h (StateObj ''uninitialized'' None None (Some err))
          else if st = ''updating''
          then return_new h (StateObj ''idle'' lv None (Some err))
          else throw_invalid h st a
      | ResetCartO \<Rightarrow>
          if st = ''fetching'' then return_new h (StateObj ''uninitialized'' None None None)
          else throw_invalid h st a
      | AddLineItemO \<Rightarrow> keep_cart_h h st c a
      | RemoveLineItemO ia \<Rightarrow>
          if st = ''idle''
          then (case c of
                  None \<Rightarrow> Some (Inl TypeError, h)
                | Some cp \<Rightarrow>
                   (case get_cart h cp of None \<Rightarrow> None | Some (la, m) \<Rightarrow>
                   (case get_refs h la of None \<Rightarrow> None | Some ps \<Rightarrow>
                   (case get_strings h ia of None \<Rightarrow> None | Some ids \<Rightarrow>
                   (case filter_h h ids ps of None \<Rightarrow> None | Some ps' \<Rightarrow>
                   (case alloc h (RefArray ps') of (la', h1) \<Rightarrow>
                   (case alloc h1 (CartObj la' m) of (cp', h2) \<Rightarrow>
                      return_new h2 (StateObj ''updating'' (Some cp') (Some cp) None))))))))
          else throw_invalid h st a
      | UpdateLineItemO ua \<Rightarrow>
          if st = ''idle''
          then (case c of
                  None \<Rightarrow> Some (Inl TypeError, h)
                | Some cp \<Rightarrow>
                   (case get_cart h cp of None \<Rightarrow> None | Some (la, m) \<Rightarrow>
                   (case get_refs h la of None \<Rightarrow> None | Some ps \<Rightarrow>
                   (case get_refs h ua of None \<Rightarrow> None | Some us \<Rightarrow>
                   (case map_h h us ps of None \<Rightarrow> None | Some (ps', h0) \<Rightarrow>
                   (case alloc h0 (RefArray ps') of (la', h1) \<Rightarrow>
                   (case alloc h1 (CartObj la' m) of (cp', h2) \<Rightarrow>
                      return_new h2 (StateObj ''updating'' (Some cp') (Some cp) None))))))))
          else throw_invalid h st a
      | NoteUpdateO \<Rightarrow> keep_cart_h h st c a
      | BuyerIdentityUpdateO \<Rightarrow> keep_cart_h h st c a
      | CartAttributesUpdateO \<Rightarrow> keep_cart_h h st c a
      | DiscountCodesUpdateO \<Rightarrow> keep_cart_h h st c a)))"

text \<open>
  The value of an object of the store: what the first model takes as its input.
\<close>

definition read_line :: "('l, 'm, 'e) heap \<Rightarrow> addr \<Rightarrow> 'l cart_line_scheme option" where
  "read_line h p =
     (case get_line h p of
        None \<Rightarrow> None
      | Some (i, q, l) \<Rightarrow> Some \<lparr>id_line = i, quantity = q, \<dots> = l\<rparr>)"

definition read_lines :: "('l, 'm, 'e) heap \<Rightarrow> addr list \<Rightarrow> 'l cart_line_scheme list option" where
  "read_lines h ps = those (map (read_line h) ps)"

definition read_cart :: "('l, 'm, 'e) heap \<Rightarrow> addr \<Rightarrow> ('l, 'm) cart_scheme option" where
  "read_cart h p =
     (case get_cart h p of
        None \<Rightarrow> None
      | Some (la, m) \<Rightarrow>
          (case get_refs h la of
             None \<Rightarrow> None
           | Some ps \<Rightarrow>
               (case read_lines h ps of
                  None \<Rightarrow> None
                | Some ls \<Rightarrow> Some \<lparr>lines = ls, \<dots> = m\<rparr>)))"

definition read_cart_opt ::
  "('l, 'm, 'e) heap \<Rightarrow> addr option \<Rightarrow> ('l, 'm) cart_scheme option option" where
  "read_cart_opt h po =
     (case po of None \<Rightarrow> Some None | Some p \<Rightarrow> map_option Some (read_cart h p))"

definition read_state :: "('l, 'm, 'e) heap \<Rightarrow> addr \<Rightarrow> ('l, 'm, 'e) state option" where
  "read_state h p =
     (case get_state h p of
        None \<Rightarrow> None
      | Some (st, c, lv, e) \<Rightarrow>
          (case read_cart_opt h c of
             None \<Rightarrow> None
           | Some c' \<Rightarrow>
               (case read_cart_opt h lv of
                  None \<Rightarrow> None
                | Some lv' \<Rightarrow>
                    Some \<lparr>status = st, cart = c', lastValidCart = lv', error = e\<rparr>)))"

definition read_update :: "('l, 'm, 'e) heap \<Rightarrow> addr \<Rightarrow> cart_line_update option" where
  "read_update h p =
     (case get_update h p of
        None \<Rightarrow> None
      | Some (i, q) \<Rightarrow> Some \<lparr>id_input = i, quantity_input = q\<rparr>)"

definition read_updates :: "('l, 'm, 'e) heap \<Rightarrow> addr list \<Rightarrow> cart_line_update list option" where
  "read_updates h us = those (map (read_update h) us)"

definition read_action :: "('l, 'm, 'e) heap \<Rightarrow> addr \<Rightarrow> ('l, 'm, 'e) action option" where
  "read_action h p =
     (case get_action h p of
        None \<Rightarrow> None
      | Some a \<Rightarrow>
          (case a of
             CartFetchO \<Rightarrow> Some CartFetch
           | CartCreateO \<Rightarrow> Some CartCreate
           | ResolveO cp \<Rightarrow> map_option Resolve (read_cart h cp)
           | RejectO err \<Rightarrow> Some (Reject err)
           | ResetCartO \<Rightarrow> Some ResetCart
           | AddLineItemO \<Rightarrow> Some AddLineItem
           | RemoveLineItemO ia \<Rightarrow> map_option RemoveLineItem (get_strings h ia)
           | UpdateLineItemO ua \<Rightarrow>
               (case get_refs h ua of
                  None \<Rightarrow> None
                | Some us \<Rightarrow> map_option UpdateLineItem (read_updates h us))
           | NoteUpdateO \<Rightarrow> Some NoteUpdate
           | BuyerIdentityUpdateO \<Rightarrow> Some BuyerIdentityUpdate
           | CartAttributesUpdateO \<Rightarrow> Some CartAttributesUpdate
           | DiscountCodesUpdateO \<Rightarrow> Some DiscountCodesUpdate))"

text \<open>
  The value of a run: the error thrown, or the value of the state returned, read in the
  store after the run; and the store after the run.
\<close>

definition read_result ::
  "('l, 'm, 'e) outcome \<Rightarrow> (exn + ('l, 'm, 'e) state) option" where
  "read_result r =
     (case r of
        None \<Rightarrow> None
      | Some (Inl x, h') \<Rightarrow> Some (Inl x)
      | Some (Inr p, h') \<Rightarrow> map_option Inr (read_state h' p))"

definition heap_after :: "('l, 'm, 'e) heap \<Rightarrow> ('l, 'm, 'e) outcome \<Rightarrow> ('l, 'm, 'e) heap" where
  "heap_after h r = (case r of None \<Rightarrow> h | Some (x, h') \<Rightarrow> h')"

text \<open>Two stores that hold the same state and the same action at different addresses.\<close>

definition example_heap :: "(unit, unit, string) heap" where
  "example_heap =
     [LineObj ''a'' 1 (), LineObj ''b'' 2 (), RefArray [0, 1], CartObj 2 (),
      StateObj ''idle'' (Some 3) None None,
      UpdateObj ''a'' (Some 5), UpdateObj ''b'' (Some 0), RefArray [5, 6],
      ActionObj (UpdateLineItemO 7)]"

definition example_heap2 :: "(unit, unit, string) heap" where
  "example_heap2 =
     [ActionObj (UpdateLineItemO 1), RefArray [3, 2],
      UpdateObj ''b'' (Some 0), UpdateObj ''a'' (Some 5),
      StateObj ''idle'' (Some 5) None None, CartObj 6 (), RefArray [8, 7],
      LineObj ''b'' 2 (), LineObj ''a'' 1 ()]"

subsection \<open>Facts about the line update\<close>

lemma update_line_cases:
  "update_line us l = l \<or>
   (\<exists>u\<in>set us. \<exists>q. id_input u = id_line l \<and> quantity_input u = Some q \<and> q \<noteq> 0 \<and>
                    update_line us l = l\<lparr>quantity := q\<rparr>)"
  by (auto simp: update_line_def find_Some_iff split: option.splits)

lemma update_line_first:
  "find (\<lambda>u. id_input u = id_line l) us = Some u \<Longrightarrow> quantity_input u = Some q \<Longrightarrow>
   q \<noteq> 0 \<Longrightarrow> update_line us l = l\<lparr>quantity := q\<rparr>"
  by (simp add: update_line_def)

lemma update_line_first_falsy:
  "find (\<lambda>u. id_input u = id_line l) us = Some u \<Longrightarrow>
   quantity_input u = None \<or> quantity_input u = Some 0 \<Longrightarrow> update_line us l = l"
  by (auto simp: update_line_def)

lemma update_line_all_falsy:
  "\<forall>u\<in>set us. id_input u = id_line l \<longrightarrow>
     quantity_input u = None \<or> quantity_input u = Some 0
   \<Longrightarrow> update_line us l = l"
  using update_line_cases[of us l] by auto

lemma update_line_id: "id_line (update_line us l) = id_line l"
  using update_line_cases[of us l] by auto

lemma update_line_more: "cart_line.more (update_line us l) = cart_line.more l"
  using update_line_cases[of us l] by auto

subsection \<open>Facts about the transitions\<close>

lemma not_permitted_throws:
  "\<not> permitted (status s) a \<Longrightarrow> cartReducer s a = invalid_transition s a"
  by (cases a) (auto simp: resolvableStatuses_def)

lemma permitted_succeeds:
  "wf_state s \<Longrightarrow> permitted (status s) a \<Longrightarrow> succeeds s a"
  by (cases a) (auto simp: resolvableStatuses_def wf_state_def succeeds_def)

lemma result_status:
  "cartReducer s a = Inr s' \<Longrightarrow>
   status s' \<in> set [''uninitialized'', ''fetching'', ''creating'', ''idle'', ''updating'']"
  by (cases a) (auto simp: invalid_transition_def split: if_splits option.splits)

lemma result_wf: "wf_state s \<Longrightarrow> cartReducer s a = Inr s' \<Longrightarrow> wf_state s'"
  by (cases a)
     (auto simp: invalid_transition_def wf_state_def split: if_splits option.splits)

lemma mutating_succeeds_iff:
  "mutating a \<Longrightarrow> wf_state s \<Longrightarrow> succeeds s a \<longleftrightarrow> status s = ''idle''"
  by (cases a)
     (auto simp: succeeds_def invalid_transition_def wf_state_def split: option.splits)

lemma mutating_result_status:
  "mutating a \<Longrightarrow> cartReducer s a = Inr s' \<Longrightarrow> status s' = ''updating''"
  by (cases a) (auto simp: invalid_transition_def split: if_splits option.splits)

lemma updating_only_from_idle:
  "cartReducer s a = Inr s' \<Longrightarrow> status s' = ''updating'' \<Longrightarrow>
   status s = ''idle'' \<and> mutating a"
  by (cases a) (auto simp: invalid_transition_def split: if_splits option.splits)


subsection \<open>Facts about the reducer on the store\<close>

lemma lookup_append: "lookup h p = Some v \<Longrightarrow> lookup (h @ ext) p = Some v"
  by (auto simp: lookup_def nth_append split: if_splits)

lemma lookup_alloc: "alloc h ob = (p, h') \<Longrightarrow> lookup h' p = Some ob"
  by (auto simp: alloc_def lookup_def)

lemma get_state_append: "get_state h p = Some v \<Longrightarrow> get_state (h @ ext) p = Some v"
  by (auto simp: get_state_def lookup_append split: option.splits obj.splits)

lemma get_cart_append: "get_cart h p = Some v \<Longrightarrow> get_cart (h @ ext) p = Some v"
  by (auto simp: get_cart_def lookup_append split: option.splits obj.splits)

lemma get_line_append: "get_line h p = Some v \<Longrightarrow> get_line (h @ ext) p = Some v"
  by (auto simp: get_line_def lookup_append split: option.splits obj.splits)

lemma get_refs_append: "get_refs h p = Some v \<Longrightarrow> get_refs (h @ ext) p = Some v"
  by (auto simp: get_refs_def lookup_append split: option.splits obj.splits)

lemma get_strings_append: "get_strings h p = Some v \<Longrightarrow> get_strings (h @ ext) p = Some v"
  by (auto simp: get_strings_def lookup_append split: option.splits obj.splits)

lemma get_update_append: "get_update h p = Some v \<Longrightarrow> get_update (h @ ext) p = Some v"
  by (auto simp: get_update_def lookup_append split: option.splits obj.splits)

lemma get_action_append: "get_action h p = Some v \<Longrightarrow> get_action (h @ ext) p = Some v"
  by (auto simp: get_action_def lookup_append split: option.splits obj.splits)

lemma read_line_append: "read_line h p = Some v \<Longrightarrow> read_line (h @ ext) p = Some v"
  by (auto simp: read_line_def get_line_append split: option.splits)

lemma read_lines_append: "read_lines h ps = Some ls \<Longrightarrow> read_lines (h @ ext) ps = Some ls"
  unfolding read_lines_def
  by (induction ps arbitrary: ls) (auto simp: read_line_append split: option.splits)

lemma read_cart_append: "read_cart h p = Some v \<Longrightarrow> read_cart (h @ ext) p = Some v"
  by (auto simp: read_cart_def get_cart_append get_refs_append read_lines_append
           split: option.splits)

lemma read_cart_opt_append:
  "read_cart_opt h po = Some v \<Longrightarrow> read_cart_opt (h @ ext) po = Some v"
  by (auto simp: read_cart_opt_def read_cart_append split: option.splits)

lemma read_state_append: "read_state h p = Some v \<Longrightarrow> read_state (h @ ext) p = Some v"
  by (auto simp: read_state_def get_state_append read_cart_opt_append split: option.splits)

lemma read_update_append: "read_update h p = Some v \<Longrightarrow> read_update (h @ ext) p = Some v"
  by (auto simp: read_update_def get_update_append split: option.splits)

lemma read_updates_append:
  "read_updates h us = Some ups \<Longrightarrow> read_updates (h @ ext) us = Some ups"
  unfolding read_updates_def
  by (induction us arbitrary: ups) (auto simp: read_update_append split: option.splits)

lemma read_action_append: "read_action h p = Some v \<Longrightarrow> read_action (h @ ext) p = Some v"
  by (auto simp: read_action_def get_action_append read_cart_append get_strings_append
                 get_refs_append read_updates_append
           split: option.splits action_obj.splits)


lemma read_lines_Cons:
  "read_lines h (p # ps) = Some ls \<longleftrightarrow>
   (\<exists>l ls'. read_line h p = Some l \<and> read_lines h ps = Some ls' \<and> ls = l # ls')"
  by (auto simp: read_lines_def split: option.splits)

lemma read_updates_Cons:
  "read_updates h (u # us) = Some ups \<longleftrightarrow>
   (\<exists>x ups'. read_update h u = Some x \<and> read_updates h us = Some ups' \<and> ups = x # ups')"
  by (auto simp: read_updates_def split: option.splits)

lemma read_line_Some:
  "read_line h p = Some l \<longleftrightarrow>
   get_line h p = Some (id_line l, quantity l, cart_line.more l)"
  by (cases l) (auto simp: read_line_def split: option.splits)

lemma read_update_Some:
  "read_update h u = Some x \<longleftrightarrow> get_update h u = Some (id_input x, quantity_input x)"
  by (cases x) (auto simp: read_update_def split: option.splits)

lemma filter_h_read:
  "read_lines h ps = Some ls \<Longrightarrow>
   \<exists>ps'. filter_h h ids ps = Some ps' \<and>
         read_lines h ps' = Some (filter (\<lambda>l. id_line l \<notin> set ids) ls)"
proof (induction ps arbitrary: ls)
  case Nil
  then show ?case by (simp add: read_lines_def)
next
  case (Cons p ps)
  then obtain l ls' where l: "read_line h p = Some l" and ls': "read_lines h ps = Some ls'"
    and ls: "ls = l # ls'"
    by (auto simp: read_lines_Cons)
  from Cons.IH[OF ls'] obtain ps' where
    ps': "filter_h h ids ps = Some ps'"
         "read_lines h ps' = Some (filter (\<lambda>l. id_line l \<notin> set ids) ls')"
    by blast
  from l have g: "get_line h p = Some (id_line l, quantity l, cart_line.more l)"
    by (simp add: read_line_Some)
  show ?case using ps' g l ls by (simp add: read_lines_Cons)
qed

lemma find_h_read:
  "read_updates h us = Some ups \<Longrightarrow>
   find_h h i us =
     Some (map_option (\<lambda>u. (id_input u, quantity_input u))
             (find (\<lambda>u. id_input u = i) ups))"
proof (induction us arbitrary: ups)
  case Nil
  then show ?case by (simp add: read_updates_def)
next
  case (Cons u us)
  then obtain x ups' where x: "read_update h u = Some x"
    and ups': "read_updates h us = Some ups'" and ups: "ups = x # ups'"
    by (auto simp: read_updates_Cons)
  from x have g: "get_update h u = Some (id_input x, quantity_input x)"
    by (simp add: read_update_Some)
  show ?case using Cons.IH[OF ups'] g ups by simp
qed

lemma update_line_h_prefix: "update_line_h h us p = Some (p', h') \<Longrightarrow> prefix h h'"
  by (auto simp: update_line_h_def alloc_def split: option.splits if_splits)

lemma map_h_prefix: "map_h h us ps = Some (ps', h') \<Longrightarrow> prefix h h'"
proof (induction ps arbitrary: h ps')
  case Nil
  then show ?case by simp
next
  case (Cons p ps)
  from Cons.prems obtain p' h1 r where
    step: "update_line_h h us p = Some (p', h1)" and rest: "map_h h1 us ps = Some (r, h')"
    by (auto split: option.splits)
  from update_line_h_prefix[OF step] Cons.IH[OF rest] show ?case
    by (rule prefix_order.trans)
qed

lemma update_line_h_read:
  assumes "read_line h p = Some l" and "read_updates h us = Some ups"
  shows "\<exists>p' h'. update_line_h h us p = Some (p', h') \<and>
                 read_line h' p' = Some (update_line ups l)"
proof -
  from assms(1) have g: "get_line h p = Some (id_line l, quantity l, cart_line.more l)"
    by (simp add: read_line_Some)
  note f = find_h_read[OF assms(2), of "id_line l"]
  show ?thesis
  proof (cases "find (\<lambda>u. id_input u = id_line l) ups")
    case None
    then show ?thesis using g f assms(1) by (simp add: update_line_h_def update_line_def)
  next
    case (Some u)
    show ?thesis
    proof (cases "quantity_input u")
      case None
      then show ?thesis
        using Some g f assms(1) by (simp add: update_line_h_def update_line_def)
    next
      case (Some q)
      have new: "read_line (h @ [LineObj (id_line l) q (cart_line.more l)]) (length h) =
                 Some (l\<lparr>quantity := q\<rparr>)"
        by (cases l) (simp add: read_line_def get_line_def lookup_def)
      show ?thesis
        using Some \<open>find _ ups = Some u\<close> g f assms(1) new
        by (simp add: update_line_h_def update_line_def alloc_def)
    qed
  qed
qed

lemma map_h_read:
  "read_lines h ps = Some ls \<Longrightarrow> read_updates h us = Some ups \<Longrightarrow>
   \<exists>ps' h'. map_h h us ps = Some (ps', h') \<and>
            read_lines h' ps' = Some (map (update_line ups) ls)"
proof (induction ps arbitrary: h ls)
  case Nil
  then show ?case by (simp add: read_lines_def)
next
  case (Cons p ps)
  then obtain l ls' where l: "read_line h p = Some l" and ls': "read_lines h ps = Some ls'"
    and ls: "ls = l # ls'"
    by (auto simp: read_lines_Cons)
  from update_line_h_read[OF l Cons.prems(2)] obtain p' h1 where
    step: "update_line_h h us p = Some (p', h1)"
    and p': "read_line h1 p' = Some (update_line ups l)"
    by blast
  from update_line_h_prefix[OF step] obtain ext where h1: "h1 = h @ ext"
    by (auto simp: prefix_def)
  have "read_lines h1 ps = Some ls'" "read_updates h1 us = Some ups"
    using ls' Cons.prems(2) by (simp_all add: h1 read_lines_append read_updates_append)
  from Cons.IH[OF this] obtain ps' h2 where
    rest: "map_h h1 us ps = Some (ps', h2)"
    and ps': "read_lines h2 ps' = Some (map (update_line ups) ls')"
    by blast
  from map_h_prefix[OF rest] obtain ext2 where h2: "h2 = h1 @ ext2"
    by (auto simp: prefix_def)
  have "read_line h2 p' = Some (update_line ups l)"
    using p' by (simp add: h2 read_line_append)
  then show ?case using step rest ps' ls by (simp add: read_lines_Cons)
qed


lemma return_new_prefix: "return_new h ob = Some (r, h') \<Longrightarrow> prefix h h'"
  by (auto simp: return_new_def alloc_def)

lemma throw_invalid_prefix: "throw_invalid h st a = Some (r, h') \<Longrightarrow> prefix h h'"
  by (auto simp: throw_invalid_def)

lemma keep_cart_h_prefix: "keep_cart_h h st c a = Some (r, h') \<Longrightarrow> prefix h h'"
  by (auto simp: keep_cart_h_def dest: return_new_prefix throw_invalid_prefix
           split: if_splits)

lemma cartReducer_h_prefix: "cartReducer_h h sp ap = Some (r, h') \<Longrightarrow> prefix h h'"
  unfolding cartReducer_h_def
  by (auto simp: alloc_def prefix_def
           dest!: return_new_prefix throw_invalid_prefix keep_cart_h_prefix map_h_prefix
           split: option.splits action_obj.splits if_splits prod.splits)


lemma read_state_Some:
  "read_state h sp = Some s \<longleftrightarrow>
   (\<exists>c lv. get_state h sp = Some (status s, c, lv, error s) \<and>
           read_cart_opt h c = Some (cart s) \<and>
           read_cart_opt h lv = Some (lastValidCart s))"
  by (cases s) (auto simp: read_state_def split: option.splits)

lemma read_cart_Some:
  "read_cart h cp = Some c \<longleftrightarrow>
   (\<exists>la ps. get_cart h cp = Some (la, cart.more c) \<and> get_refs h la = Some ps \<and>
            read_lines h ps = Some (lines c))"
  by (cases c) (auto simp: read_cart_def split: option.splits)

lemma read_return_new:
  assumes "read_cart_opt h c = Some c'" and "read_cart_opt h lv = Some lv'"
  shows "read_result (return_new h (StateObj st c lv e)) =
         Some (Inr \<lparr>status = st, cart = c', lastValidCart = lv', error = e\<rparr>)"
proof -
  have "get_state (h @ [StateObj st c lv e]) (length h) = Some (st, c, lv, e)"
    by (simp add: get_state_def lookup_def)
  moreover have "read_cart_opt (h @ [StateObj st c lv e]) c = Some c'"
    "read_cart_opt (h @ [StateObj st c lv e]) lv = Some lv'"
    using assms by (simp_all add: read_cart_opt_append)
  ultimately show ?thesis
    by (simp add: read_result_def return_new_def alloc_def read_state_def)
qed

lemma read_throw_invalid:
  "read_result (throw_invalid h st a) =
   Some (Inl (Error (''Cannot dispatch event ('' @ action_obj_type a @
                     '') for current cart state ('' @ st @ '')'')))"
  by (simp add: read_result_def throw_invalid_def)

lemma read_new_cart:
  assumes "read_lines h ps = Some ls"
  shows "read_cart (h @ [RefArray ps, CartObj (length h) m]) (Suc (length h)) =
         Some \<lparr>lines = ls, \<dots> = m\<rparr>"
proof -
  have "read_lines (h @ [RefArray ps, CartObj (length h) m]) ps = Some ls"
    using assms by (rule read_lines_append)
  then show ?thesis
    by (simp add: read_cart_def get_cart_def get_refs_def lookup_def nth_append)
qed

lemma read_updating_new_cart:
  assumes ps: "read_lines h ps = Some ls"
    and old: "read_cart h cp = Some c"
  shows "read_result
           (return_new (h @ [RefArray ps, CartObj (length h) m])
              (StateObj ''updating'' (Some (Suc (length h))) (Some cp) None)) =
         Some (Inr \<lparr>status = ''updating'', cart = Some \<lparr>lines = ls, \<dots> = m\<rparr>,
                    lastValidCart = Some c, error = None\<rparr>)"
proof (rule read_return_new)
  show "read_cart_opt (h @ [RefArray ps, CartObj (length h) m]) (Some (Suc (length h))) =
        Some (Some \<lparr>lines = ls, \<dots> = m\<rparr>)"
    using read_new_cart[OF ps] by (simp add: read_cart_opt_def)
  show "read_cart_opt (h @ [RefArray ps, CartObj (length h) m]) (Some cp) = Some (Some c)"
    using read_cart_append[OF old] by (simp add: read_cart_opt_def)
qed


lemma read_cart_opt_simps:
  "read_cart_opt h None = Some None"
  "read_cart_opt h (Some p) = map_option Some (read_cart h p)"
  by (simp_all add: read_cart_opt_def)

lemma read_cart_opt_Some:
  "read_cart_opt h (Some cp) = Some x \<Longrightarrow> \<exists>c0. read_cart h cp = Some c0 \<and> x = Some c0"
  by (auto simp: read_cart_opt_def)

lemma read_keep_cart_h:
  assumes "read_cart_opt h c = Some c'"
  shows "read_result (keep_cart_h h st c a) =
         Some (if st = ''idle''
               then Inr \<lparr>status = ''updating'', cart = c', lastValidCart = c',
                         error = None\<rparr>
               else Inl (Error (''Cannot dispatch event ('' @ action_obj_type a @
                                '') for current cart state ('' @ st @ '')'')))"
  using assms by (simp add: keep_cart_h_def read_return_new read_throw_invalid)

lemma lines_update_eq: "c\<lparr>lines := ls\<rparr> = \<lparr>lines = ls, \<dots> = cart.more c\<rparr>"
  by (cases c) simp

lemma read_remove_result:
  assumes gs: "get_state h sp = Some (''idle'', Some cp, lv, e)"
    and ga: "get_action h ap = Some (RemoveLineItemO ia)"
    and ids: "get_strings h ia = Some ids"
    and c: "read_cart h cp = Some c"
  shows "read_result (cartReducer_h h sp ap) =
         Some (Inr \<lparr>status = ''updating'',
                    cart = Some (c\<lparr>lines := filter (\<lambda>l. id_line l \<notin> set ids) (lines c)\<rparr>),
                    lastValidCart = Some c, error = None\<rparr>)"
proof -
  from c obtain la ps where gc: "get_cart h cp = Some (la, cart.more c)"
    and gr: "get_refs h la = Some ps" and ls: "read_lines h ps = Some (lines c)"
    by (auto simp: read_cart_Some)
  from filter_h_read[OF ls, of ids] obtain ps' where
    f: "filter_h h ids ps = Some ps'"
    and ls': "read_lines h ps' = Some (filter (\<lambda>l. id_line l \<notin> set ids) (lines c))"
    by blast
  have "cartReducer_h h sp ap =
        return_new (h @ [RefArray ps', CartObj (length h) (cart.more c)])
          (StateObj ''updating'' (Some (Suc (length h))) (Some cp) None)"
    using gs ga ids gc gr f by (simp add: cartReducer_h_def alloc_def)
  then show ?thesis
    using read_updating_new_cart[OF ls' c, of "cart.more c"] by (simp add: lines_update_eq)
qed

lemma read_update_result:
  assumes gs: "get_state h sp = Some (''idle'', Some cp, lv, e)"
    and ga: "get_action h ap = Some (UpdateLineItemO ua)"
    and gu: "get_refs h ua = Some us"
    and ups: "read_updates h us = Some ups"
    and c: "read_cart h cp = Some c"
  shows "read_result (cartReducer_h h sp ap) =
         Some (Inr \<lparr>status = ''updating'',
                    cart = Some (c\<lparr>lines := map (update_line ups) (lines c)\<rparr>),
                    lastValidCart = Some c, error = None\<rparr>)"
proof -
  from c obtain la ps where gc: "get_cart h cp = Some (la, cart.more c)"
    and gr: "get_refs h la = Some ps" and ls: "read_lines h ps = Some (lines c)"
    by (auto simp: read_cart_Some)
  from map_h_read[OF ls ups] obtain ps' h0 where
    m: "map_h h us ps = Some (ps', h0)"
    and ls': "read_lines h0 ps' = Some (map (update_line ups) (lines c))"
    by blast
  from map_h_prefix[OF m] obtain ext where h0: "h0 = h @ ext"
    by (auto simp: prefix_def)
  have c0: "read_cart h0 cp = Some c"
    using c by (simp add: h0 read_cart_append)
  have "cartReducer_h h sp ap =
        return_new (h0 @ [RefArray ps', CartObj (length h0) (cart.more c)])
          (StateObj ''updating'' (Some (Suc (length h0))) (Some cp) None)"
    using gs ga gu gc gr m by (simp add: cartReducer_h_def alloc_def)
  then show ?thesis
    using read_updating_new_cart[OF ls' c0, of "cart.more c"] by (simp add: lines_update_eq)
qed

lemma cartReducer_h_refines:
  assumes s: "read_state h sp = Some s" and a: "read_action h ap = Some a"
  shows "read_result (cartReducer_h h sp ap) = Some (cartReducer s a)"
proof -
  from s obtain c lv where gs: "get_state h sp = Some (status s, c, lv, error s)"
    and rc: "read_cart_opt h c = Some (cart s)"
    and rlv: "read_cart_opt h lv = Some (lastValidCart s)"
    by (auto simp: read_state_Some)
  from a obtain ao where ga: "get_action h ap = Some ao"
    by (auto simp: read_action_def split: option.splits)
  note simple = cartReducer_h_def read_return_new read_throw_invalid read_keep_cart_h
    invalid_transition_def read_cart_opt_simps
  show ?thesis
  proof (cases ao)
    case CartFetchO
    with a ga have "a = CartFetch" by (simp add: read_action_def)
    then show ?thesis using gs ga CartFetchO by (simp add: simple)
  next
    case CartCreateO
    with a ga have "a = CartCreate" by (simp add: read_action_def)
    then show ?thesis using gs ga CartCreateO by (simp add: simple)
  next
    case (ResolveO cp)
    with a ga obtain c0 where "read_cart h cp = Some c0" "a = Resolve c0"
      by (auto simp: read_action_def)
    then show ?thesis using gs ga ResolveO by (simp add: simple)
  next
    case (RejectO err)
    with a ga have "a = Reject err" by (simp add: read_action_def)
    then show ?thesis using gs ga RejectO rlv by (simp add: simple)
  next
    case ResetCartO
    with a ga have "a = ResetCart" by (simp add: read_action_def)
    then show ?thesis using gs ga ResetCartO by (simp add: simple)
  next
    case AddLineItemO
    with a ga have "a = AddLineItem" by (simp add: read_action_def)
    then show ?thesis using gs ga AddLineItemO rc by (simp add: simple)
  next
    case (RemoveLineItemO ia)
    with a ga obtain ids where ids: "get_strings h ia = Some ids" "a = RemoveLineItem ids"
      by (auto simp: read_action_def)
    show ?thesis
    proof (cases "status s = ''idle''")
      case False
      then show ?thesis using gs ga RemoveLineItemO ids by (simp add: simple)
    next
      case True
      show ?thesis
      proof (cases c)
        case None
        with rc have "cart s = None" by (simp add: read_cart_opt_simps)
        then show ?thesis
          using True None gs ga RemoveLineItemO ids
          by (simp add: cartReducer_h_def read_result_def)
      next
        case (Some cp)
        with rc obtain c0 where c0: "read_cart h cp = Some c0" "cart s = Some c0"
          by (auto dest: read_cart_opt_Some)
        from gs True Some have gs': "get_state h sp = Some (''idle'', Some cp, lv, error s)"
          by simp
        from ga RemoveLineItemO have ga': "get_action h ap = Some (RemoveLineItemO ia)"
          by simp
        show ?thesis
          using read_remove_result[OF gs' ga' ids(1) c0(1)] True c0(2) ids(2) by simp
      qed
    qed
  next
    case (UpdateLineItemO ua)
    with a ga obtain us ups where us: "get_refs h ua = Some us"
      "read_updates h us = Some ups" "a = UpdateLineItem ups"
      by (auto simp: read_action_def split: option.splits)
    show ?thesis
    proof (cases "status s = ''idle''")
      case False
      then show ?thesis using gs ga UpdateLineItemO us by (simp add: simple)
    next
      case True
      show ?thesis
      proof (cases c)
        case None
        with rc have "cart s = None" by (simp add: read_cart_opt_simps)
        then show ?thesis
          using True None gs ga UpdateLineItemO us
          by (simp add: cartReducer_h_def read_result_def)
      next
        case (Some cp)
        with rc obtain c0 where c0: "read_cart h cp = Some c0" "cart s = Some c0"
          by (auto dest: read_cart_opt_Some)
        from gs True Some have gs': "get_state h sp = Some (''idle'', Some cp, lv, error s)"
          by simp
        from ga UpdateLineItemO have ga': "get_action h ap = Some (UpdateLineItemO ua)"
          by simp
        show ?thesis
          using read_update_result[OF gs' ga' us(1) us(2) c0(1)] True c0(2) us(3) by simp
      qed
    qed
  next
    case NoteUpdateO
    with a ga have "a = NoteUpdate" by (simp add: read_action_def)
    then show ?thesis using gs ga NoteUpdateO rc by (simp add: simple)
  next
    case BuyerIdentityUpdateO
    with a ga have "a = BuyerIdentityUpdate" by (simp add: read_action_def)
    then show ?thesis using gs ga BuyerIdentityUpdateO rc by (simp add: simple)
  next
    case CartAttributesUpdateO
    with a ga have "a = CartAttributesUpdate" by (simp add: read_action_def)
    then show ?thesis using gs ga CartAttributesUpdateO rc by (simp add: simple)
  next
    case DiscountCodesUpdateO
    with a ga have "a = DiscountCodesUpdate" by (simp add: read_action_def)
    then show ?thesis using gs ga DiscountCodesUpdateO rc by (simp add: simple)
  qed
qed

lemma reads_after:
  assumes "cartReducer_h h sp ap = Some (r, h')"
  shows "read_state h p = Some s \<Longrightarrow> read_state h' p = Some s"
    and "read_action h q = Some a \<Longrightarrow> read_action h' q = Some a"
  using cartReducer_h_prefix[OF assms]
  by (auto simp: prefix_def read_state_append read_action_append)

section \<open>Properties of the reducer\<close>

text \<open>
  C1. For every pair of a state and an action that the transition table does not permit,
  the reducer throws the error whose message names the action's type and the state's
  status; for every permitted pair, on a state of the type \<^verbatim>\<open>State\<close>, it returns a
  state and does not throw.
\<close>

theorem invalid_transition_throws:
  "(\<not> permitted (status s) a \<longrightarrow>
      cartReducer s a =
        Inl (Error (''Cannot dispatch event ('' @ action_type a @
                    '') for current cart state ('' @ status s @ '')''))) \<and>
   (wf_state s \<and> permitted (status s) a \<longrightarrow> succeeds s a)"
  using not_permitted_throws[of s a] permitted_succeeds[of s a]
  by (simp add: invalid_transition_def)

theorem invalid_transition_throws_witness:
  "\<not> permitted ''creating'' (RemoveLineItem [''a''] :: (unit, unit, string) action) \<and>
   cartReducer \<lparr>status = ''creating'', cart = None, lastValidCart = None, error = None\<rparr>
       (RemoveLineItem [''a''] :: (unit, unit, string) action) =
     Inl (Error
       ''Cannot dispatch event (removeLineItem) for current cart state (creating)'') \<and>
   wf_state \<lparr>status = ''uninitialized'', cart = None, lastValidCart = None,
             error = Some ''e''\<rparr> \<and>
   permitted ''uninitialized'' (CartFetch :: (unit, unit, string) action) \<and>
   succeeds \<lparr>status = ''uninitialized'', cart = None, lastValidCart = None,
             error = Some ''e''\<rparr> (CartFetch :: (unit, unit, string) action)"
  using invalid_transition_throws
          [of "\<lparr>status = ''creating'', cart = None, lastValidCart = None, error = None\<rparr>"
              "RemoveLineItem [''a''] :: (unit, unit, string) action"]
        invalid_transition_throws
          [of "\<lparr>status = ''uninitialized'', cart = None, lastValidCart = None,
                error = Some ''e''\<rparr>"
              "CartFetch :: (unit, unit, string) action"]
  by (simp add: wf_state_def)

text \<open>
  C2. For every state with status \<^verbatim>\<open>updating\<close> and every \<^verbatim>\<open>reject\<close> action, the
  reducer returns, without throwing, the state with status \<^verbatim>\<open>idle\<close> whose cart is the
  updating state's \<^verbatim>\<open>lastValidCart\<close> and whose error is the action's error.
\<close>

theorem reject_updating_rolls_back:
  "status s = ''updating'' \<Longrightarrow>
   cartReducer s (Reject e) =
     Inr \<lparr>status = ''idle'', cart = lastValidCart s, lastValidCart = None,
          error = Some e\<rparr>"
  by simp

theorem reject_updating_rolls_back_witness:
  "cartReducer
     \<lparr>status = ''updating'',
      cart = Some \<lparr>lines = [\<lparr>id_line = ''b'', quantity = 2\<rparr>]\<rparr>,
      lastValidCart =
        Some \<lparr>lines = [\<lparr>id_line = ''a'', quantity = 1\<rparr>, \<lparr>id_line = ''b'', quantity = 2\<rparr>]\<rparr>,
      error = None\<rparr>
     (Reject ''network'') =
   Inr \<lparr>status = ''idle'',
        cart =
          Some \<lparr>lines = [\<lparr>id_line = ''a'', quantity = 1\<rparr>, \<lparr>id_line = ''b'', quantity = 2\<rparr>]\<rparr>,
        lastValidCart = None, error = Some ''network''\<rparr>"
  using reject_updating_rolls_back
          [of "\<lparr>status = ''updating'',
                cart = Some \<lparr>lines = [\<lparr>id_line = ''b'', quantity = 2\<rparr>]\<rparr>,
                lastValidCart =
                  Some \<lparr>lines = [\<lparr>id_line = ''a'', quantity = 1\<rparr>,
                                 \<lparr>id_line = ''b'', quantity = 2\<rparr>]\<rparr>,
                error = None\<rparr>" "''network''"]
  by simp

text \<open>
  C3. For every state with status \<^verbatim>\<open>idle\<close>, carrying the cart \<open>c\<close>, and every one of
  the seven mutating actions, the reducer returns a state with status \<^verbatim>\<open>updating\<close>
  whose \<^verbatim>\<open>lastValidCart\<close> is \<open>c\<close>.
\<close>

theorem mutating_keeps_last_valid_cart:
  "status s = ''idle'' \<Longrightarrow> cart s = Some c \<Longrightarrow> mutating a \<Longrightarrow>
   \<exists>s'. cartReducer s a = Inr s' \<and> status s' = ''updating'' \<and> lastValidCart s' = Some c"
  by (cases a) simp_all

theorem mutating_keeps_last_valid_cart_witness:
  "\<exists>s'. cartReducer
          \<lparr>status = ''idle'',
           cart = Some \<lparr>lines = [\<lparr>id_line = ''a'', quantity = 1\<rparr>]\<rparr>,
           lastValidCart = None, error = None :: string option\<rparr>
          (UpdateLineItem [\<lparr>id_input = ''a'', quantity_input = Some 4\<rparr>]) = Inr s' \<and>
        status s' = ''updating'' \<and>
        lastValidCart s' = Some \<lparr>lines = [\<lparr>id_line = ''a'', quantity = 1\<rparr>]\<rparr>"
  by (rule mutating_keeps_last_valid_cart) simp_all

text \<open>
  C4. For every state with status \<^verbatim>\<open>updating\<close>, \<^verbatim>\<open>fetching\<close> or \<^verbatim>\<open>creating\<close> and
  every \<^verbatim>\<open>resolve\<close> action, the reducer returns the state with status \<^verbatim>\<open>idle\<close> whose
  cart is the action's cart, with no \<^verbatim>\<open>error\<close> and no \<^verbatim>\<open>lastValidCart\<close>.
\<close>

theorem resolve_installs_cart:
  "status s = ''updating'' \<or> status s = ''fetching'' \<or> status s = ''creating'' \<Longrightarrow>
   cartReducer s (Resolve c) =
     Inr \<lparr>status = ''idle'', cart = Some c, lastValidCart = None, error = None\<rparr>"
  by (auto simp: resolvableStatuses_def)

theorem resolve_installs_cart_witness:
  "cartReducer
     \<lparr>status = ''updating'',
      cart = Some \<lparr>lines = [\<lparr>id_line = ''a'', quantity = 7\<rparr>]\<rparr>,
      lastValidCart = Some \<lparr>lines = [\<lparr>id_line = ''a'', quantity = 1\<rparr>]\<rparr>,
      error = None :: string option\<rparr>
     (Resolve \<lparr>lines = [\<lparr>id_line = ''a'', quantity = 5\<rparr>]\<rparr>) =
   Inr \<lparr>status = ''idle'', cart = Some \<lparr>lines = [\<lparr>id_line = ''a'', quantity = 5\<rparr>]\<rparr>,
        lastValidCart = None, error = None\<rparr>"
  by (rule resolve_installs_cart) simp


text \<open>
  C5. Every state the reducer returns has one of the five statuses, whatever the input;
  and the typing of states is an invariant of the reducer: from a state of the type
  \<^verbatim>\<open>State\<close> (\<^verbatim>\<open>idle\<close> with a cart and possibly an error, \<^verbatim>\<open>updating\<close> with a cart
  and a last valid cart, \<^verbatim>\<open>fetching\<close> and \<^verbatim>\<open>creating\<close> with neither,
  \<^verbatim>\<open>uninitialized\<close> with at most an error) every transition returns such a state.
\<close>

theorem state_shape_preserved:
  "(cartReducer s a = Inr s' \<longrightarrow>
      status s' \<in> set [''uninitialized'', ''fetching'', ''creating'', ''idle'', ''updating'']) \<and>
   (wf_state s \<and> cartReducer s a = Inr s' \<longrightarrow> wf_state s')"
  using result_status[of s a s'] result_wf[of s a s'] by blast

theorem state_shape_preserved_witness:
  "wf_state \<lparr>status = ''updating'',
             cart = Some \<lparr>lines = [\<lparr>id_line = ''b'', quantity = 2\<rparr>]\<rparr>,
             lastValidCart = Some \<lparr>lines = [\<lparr>id_line = ''a'', quantity = 1\<rparr>]\<rparr>,
             error = None\<rparr> \<and>
   cartReducer \<lparr>status = ''updating'',
                cart = Some \<lparr>lines = [\<lparr>id_line = ''b'', quantity = 2\<rparr>]\<rparr>,
                lastValidCart = Some \<lparr>lines = [\<lparr>id_line = ''a'', quantity = 1\<rparr>]\<rparr>,
                error = None\<rparr> (Reject ''network'') =
     Inr \<lparr>status = ''idle'', cart = Some \<lparr>lines = [\<lparr>id_line = ''a'', quantity = 1\<rparr>]\<rparr>,
          lastValidCart = None, error = Some ''network''\<rparr> \<and>
   wf_state \<lparr>status = ''idle'', cart = Some \<lparr>lines = [\<lparr>id_line = ''a'', quantity = 1\<rparr>]\<rparr>,
             lastValidCart = None, error = Some ''network''\<rparr>"
  using state_shape_preserved
          [of "\<lparr>status = ''updating'',
                cart = Some \<lparr>lines = [\<lparr>id_line = ''b'', quantity = 2\<rparr>]\<rparr>,
                lastValidCart = Some \<lparr>lines = [\<lparr>id_line = ''a'', quantity = 1\<rparr>]\<rparr>,
                error = None\<rparr>"
              "Reject ''network''"
              "\<lparr>status = ''idle'',
                cart = Some \<lparr>lines = [\<lparr>id_line = ''a'', quantity = 1\<rparr>]\<rparr>,
                lastValidCart = None, error = Some ''network''\<rparr>"]
  by (simp add: wf_state_def)

text \<open>
  C6. \<^verbatim>\<open>cartFetch\<close> succeeds exactly in \<^verbatim>\<open>uninitialized\<close> and yields \<^verbatim>\<open>fetching\<close>;
  \<^verbatim>\<open>cartCreate\<close> succeeds exactly in \<^verbatim>\<open>uninitialized\<close> and yields \<^verbatim>\<open>creating\<close>;
  each of the seven mutating actions succeeds, on a state of the type \<^verbatim>\<open>State\<close>,
  exactly in \<^verbatim>\<open>idle\<close> and yields \<^verbatim>\<open>updating\<close>; and a transition that returns an
  \<^verbatim>\<open>updating\<close> state is a mutating action taken in \<^verbatim>\<open>idle\<close>.
\<close>

theorem lifecycle_order:
  "(succeeds s CartFetch \<longleftrightarrow> status s = ''uninitialized'') \<and>
   (\<forall>s'. cartReducer s CartFetch = Inr s' \<longrightarrow> status s' = ''fetching'') \<and>
   (succeeds s CartCreate \<longleftrightarrow> status s = ''uninitialized'') \<and>
   (\<forall>s'. cartReducer s CartCreate = Inr s' \<longrightarrow> status s' = ''creating'') \<and>
   (mutating a \<and> wf_state s \<longrightarrow> (succeeds s a \<longleftrightarrow> status s = ''idle'')) \<and>
   (mutating a \<longrightarrow> (\<forall>s'. cartReducer s a = Inr s' \<longrightarrow> status s' = ''updating'')) \<and>
   (\<forall>s'. cartReducer s b = Inr s' \<and> status s' = ''updating'' \<longrightarrow>
          status s = ''idle'' \<and> mutating b)"
proof -
  have fetch: "succeeds s CartFetch \<longleftrightarrow> status s = ''uninitialized''"
    by (simp add: succeeds_def invalid_transition_def)
  have fetch_to: "\<forall>s'. cartReducer s CartFetch = Inr s' \<longrightarrow> status s' = ''fetching''"
    by (auto simp: invalid_transition_def split: if_splits)
  have create: "succeeds s CartCreate \<longleftrightarrow> status s = ''uninitialized''"
    by (simp add: succeeds_def invalid_transition_def)
  have create_to: "\<forall>s'. cartReducer s CartCreate = Inr s' \<longrightarrow> status s' = ''creating''"
    by (auto simp: invalid_transition_def split: if_splits)
  show ?thesis
    using fetch fetch_to create create_to mutating_succeeds_iff[of a s]
      mutating_result_status[of a s] updating_only_from_idle[of s b]
    by blast
qed

theorem lifecycle_order_witness:
  "mutating (RemoveLineItem [''a''] :: (unit, unit, string) action) \<and>
   wf_state \<lparr>status = ''idle'', cart = Some \<lparr>lines = [\<lparr>id_line = ''a'', quantity = 1\<rparr>]\<rparr>,
             lastValidCart = None, error = None :: string option\<rparr> \<and>
   succeeds \<lparr>status = ''idle'', cart = Some \<lparr>lines = [\<lparr>id_line = ''a'', quantity = 1\<rparr>]\<rparr>,
             lastValidCart = None, error = None :: string option\<rparr>
            (RemoveLineItem [''a'']) \<and>
   wf_state \<lparr>status = ''fetching'', cart = None, lastValidCart = None,
             error = None :: string option\<rparr> \<and>
   \<not> succeeds \<lparr>status = ''fetching'', cart = None, lastValidCart = None,
               error = None :: string option\<rparr>
              (RemoveLineItem [''a''] :: (unit, unit, string) action) \<and>
   \<not> succeeds \<lparr>status = ''fetching'', cart = None, lastValidCart = None,
               error = None :: string option\<rparr>
              (CartFetch :: (unit, unit, string) action)"
  using lifecycle_order
          [of "\<lparr>status = ''idle'', cart = Some \<lparr>lines = [\<lparr>id_line = ''a'', quantity = 1\<rparr>]\<rparr>,
                lastValidCart = None, error = None :: string option\<rparr>"
              "RemoveLineItem [''a'']" "RemoveLineItem [''a'']"]
        lifecycle_order
          [of "\<lparr>status = ''fetching'', cart = None, lastValidCart = None,
                error = None :: string option\<rparr>"
              "RemoveLineItem [''a''] :: (unit, unit, string) action"
              "RemoveLineItem [''a''] :: (unit, unit, string) action"]
  by (simp add: wf_state_def)


text \<open>
  C8. For every state with status \<^verbatim>\<open>idle\<close>, carrying the cart \<open>c\<close>, and every
  \<^verbatim>\<open>removeLineItem\<close> action with the ids \<open>ids\<close>, the reducer returns an
  \<^verbatim>\<open>updating\<close> state whose cart has exactly the lines of \<open>c\<close> whose id is not in
  \<open>ids\<close>, in their order in \<open>c\<close>, and every other field of \<open>c\<close> as it was, and
  whose \<^verbatim>\<open>lastValidCart\<close> is \<open>c\<close> itself.
\<close>

theorem removeLineItem_filters_lines:
  "status s = ''idle'' \<Longrightarrow> cart s = Some c \<Longrightarrow>
   \<exists>c'. cartReducer s (RemoveLineItem ids) =
          Inr \<lparr>status = ''updating'', cart = Some c', lastValidCart = Some c,
               error = None\<rparr> \<and>
        lines c' = filter (\<lambda>l. id_line l \<notin> set ids) (lines c) \<and>
        subseq (lines c') (lines c) \<and>
        set (lines c') = {l \<in> set (lines c). id_line l \<notin> set ids} \<and>
        cart.more c' = cart.more c"
  by simp

theorem removeLineItem_filters_lines_witness:
  "\<exists>c'. cartReducer
          \<lparr>status = ''idle'',
           cart = Some \<lparr>lines = [\<lparr>id_line = ''a'', quantity = 1\<rparr>,
                                 \<lparr>id_line = ''b'', quantity = 2\<rparr>,
                                 \<lparr>id_line = ''c'', quantity = 3\<rparr>]\<rparr>,
           lastValidCart = None, error = None :: string option\<rparr>
          (RemoveLineItem [''b'', ''z'']) =
          Inr \<lparr>status = ''updating'', cart = Some c',
               lastValidCart = Some \<lparr>lines = [\<lparr>id_line = ''a'', quantity = 1\<rparr>,
                                              \<lparr>id_line = ''b'', quantity = 2\<rparr>,
                                              \<lparr>id_line = ''c'', quantity = 3\<rparr>]\<rparr>,
               error = None\<rparr> \<and>
        lines c' = [\<lparr>id_line = ''a'', quantity = 1\<rparr>, \<lparr>id_line = ''c'', quantity = 3\<rparr>]"
  using removeLineItem_filters_lines
          [of "\<lparr>status = ''idle'',
                cart = Some \<lparr>lines = [\<lparr>id_line = ''a'', quantity = 1\<rparr>,
                                      \<lparr>id_line = ''b'', quantity = 2\<rparr>,
                                      \<lparr>id_line = ''c'', quantity = 3\<rparr>]\<rparr>,
                lastValidCart = None, error = None :: string option\<rparr>"
              "\<lparr>lines = [\<lparr>id_line = ''a'', quantity = 1\<rparr>,
                         \<lparr>id_line = ''b'', quantity = 2\<rparr>,
                         \<lparr>id_line = ''c'', quantity = 3\<rparr>]\<rparr>"
              "[''b'', ''z'']"]
  by simp

text \<open>
  C9. For every state with status \<^verbatim>\<open>idle\<close>, carrying the cart \<open>c\<close>, and every
  \<^verbatim>\<open>updateLineItem\<close> action with the entries \<open>us\<close>, the reducer returns an
  \<^verbatim>\<open>updating\<close> state whose cart has the lines of \<open>c\<close> one by one, each either
  unchanged or with its quantity alone replaced; the quantity of a line is replaced
  only when \<open>us\<close> has an entry with the line's id and a truthy quantity (not
  \<^verbatim>\<open>undefined\<close>, not 0); a line whose entries in \<open>us\<close> all have the quantity 0 or
  \<^verbatim>\<open>undefined\<close>, and a line that \<open>us\<close> does not name, is unchanged. The entry that
  decides is the first one of \<open>us\<close> with the line's id: its quantity replaces the
  line's when truthy, and leaves the line unchanged when 0 or \<^verbatim>\<open>undefined\<close>.
\<close>

theorem updateLineItem_maps_lines:
  "status s = ''idle'' \<Longrightarrow> cart s = Some c \<Longrightarrow>
   \<exists>c'. cartReducer s (UpdateLineItem us) =
          Inr \<lparr>status = ''updating'', cart = Some c', lastValidCart = Some c,
               error = None\<rparr> \<and>
        cart.more c' = cart.more c \<and>
        length (lines c') = length (lines c) \<and>
        (\<forall>i<length (lines c).
           (lines c' ! i = lines c ! i \<or>
            (\<exists>u\<in>set us. \<exists>q. id_input u = id_line (lines c ! i) \<and>
                quantity_input u = Some q \<and> q \<noteq> 0 \<and>
                lines c' ! i = (lines c ! i)\<lparr>quantity := q\<rparr>)) \<and>
           ((\<forall>u\<in>set us. id_input u = id_line (lines c ! i) \<longrightarrow>
                 quantity_input u = None \<or> quantity_input u = Some 0) \<longrightarrow>
            lines c' ! i = lines c ! i) \<and>
           (\<forall>u q. find (\<lambda>u. id_input u = id_line (lines c ! i)) us = Some u \<and>
                  quantity_input u = Some q \<and> q \<noteq> 0 \<longrightarrow>
              lines c' ! i = (lines c ! i)\<lparr>quantity := q\<rparr>) \<and>
           (\<forall>u. find (\<lambda>u. id_input u = id_line (lines c ! i)) us = Some u \<and>
                (quantity_input u = None \<or> quantity_input u = Some 0) \<longrightarrow>
              lines c' ! i = lines c ! i))"
  using update_line_cases update_line_all_falsy update_line_first update_line_first_falsy
  by (simp del: ex_simps all_simps) blast

theorem updateLineItem_maps_lines_witness:
  "\<exists>s'. cartReducer
          \<lparr>status = ''idle'',
           cart = Some \<lparr>lines = [\<lparr>id_line = ''a'', quantity = 1\<rparr>,
                                 \<lparr>id_line = ''b'', quantity = 2\<rparr>,
                                 \<lparr>id_line = ''c'', quantity = 3\<rparr>]\<rparr>,
           lastValidCart = None, error = None :: string option\<rparr>
          (UpdateLineItem [\<lparr>id_input = ''a'', quantity_input = Some 5\<rparr>,
                           \<lparr>id_input = ''b'', quantity_input = Some 0\<rparr>,
                           \<lparr>id_input = ''c'', quantity_input = None\<rparr>]) = Inr s' \<and>
        map_option lines (cart s') =
          Some [\<lparr>id_line = ''a'', quantity = 5\<rparr>, \<lparr>id_line = ''b'', quantity = 2\<rparr>,
                \<lparr>id_line = ''c'', quantity = 3\<rparr>]"
  using updateLineItem_maps_lines
          [of "\<lparr>status = ''idle'',
                cart = Some \<lparr>lines = [\<lparr>id_line = ''a'', quantity = 1\<rparr>,
                                      \<lparr>id_line = ''b'', quantity = 2\<rparr>,
                                      \<lparr>id_line = ''c'', quantity = 3\<rparr>]\<rparr>,
                lastValidCart = None, error = None :: string option\<rparr>"
              "\<lparr>lines = [\<lparr>id_line = ''a'', quantity = 1\<rparr>,
                         \<lparr>id_line = ''b'', quantity = 2\<rparr>,
                         \<lparr>id_line = ''c'', quantity = 3\<rparr>]\<rparr>"
              "[\<lparr>id_input = ''a'', quantity_input = Some 5\<rparr>,
                \<lparr>id_input = ''b'', quantity_input = Some 0\<rparr>,
                \<lparr>id_input = ''c'', quantity_input = None\<rparr>]"]
  by (simp add: update_line_def)

text \<open>
  C10. For every state with status \<^verbatim>\<open>fetching\<close> or \<^verbatim>\<open>creating\<close> and every
  \<^verbatim>\<open>reject\<close> action, the reducer returns the state with status \<^verbatim>\<open>uninitialized\<close>
  that carries the action's error and no cart.
\<close>

theorem reject_before_cart_uninitializes:
  "status s = ''fetching'' \<or> status s = ''creating'' \<Longrightarrow>
   cartReducer s (Reject e) =
     Inr \<lparr>status = ''uninitialized'', cart = None, lastValidCart = None,
          error = Some e\<rparr>"
  by auto

theorem reject_before_cart_uninitializes_witness:
  "cartReducer
     (\<lparr>status = ''creating'', cart = None, lastValidCart = None, error = None\<rparr>
        :: (unit, unit, string) state)
     (Reject ''network'') =
   Inr \<lparr>status = ''uninitialized'', cart = None, lastValidCart = None,
        error = Some ''network''\<rparr>"
  by (rule reject_before_cart_uninitializes) simp

text \<open>
  C7. The reducer is pure and deterministic. Run on a store of objects, what it throws or
  returns is what the function \<open>cartReducer\<close> gives on the values of the state and of
  the action, so two runs on equal values, wherever and in whatever store the objects
  are, throw the same error or return equal states; the store after a run is the store
  before it followed by the new objects, so no object that existed is written, and the
  input state and the input action have the values they had.
\<close>

theorem cartReducer_pure:
  assumes "read_state h1 sp1 = Some s" and "read_action h1 ap1 = Some a"
    and "read_state h2 sp2 = Some s" and "read_action h2 ap2 = Some a"
  shows "read_result (cartReducer_h h1 sp1 ap1) = Some (cartReducer s a) \<and>
         read_result (cartReducer_h h2 sp2 ap2) = read_result (cartReducer_h h1 sp1 ap1) \<and>
         prefix h1 (heap_after h1 (cartReducer_h h1 sp1 ap1)) \<and>
         read_state (heap_after h1 (cartReducer_h h1 sp1 ap1)) sp1 = Some s \<and>
         read_action (heap_after h1 (cartReducer_h h1 sp1 ap1)) ap1 = Some a"
proof -
  have r1: "read_result (cartReducer_h h1 sp1 ap1) = Some (cartReducer s a)"
    using assms(1,2) by (rule cartReducer_h_refines)
  have r2: "read_result (cartReducer_h h2 sp2 ap2) = Some (cartReducer s a)"
    using assms(3,4) by (rule cartReducer_h_refines)
  from r1 obtain r h' where run: "cartReducer_h h1 sp1 ap1 = Some (r, h')"
    by (cases "cartReducer_h h1 sp1 ap1") (auto simp: read_result_def)
  then have after: "heap_after h1 (cartReducer_h h1 sp1 ap1) = h'"
    by (simp add: heap_after_def)
  show ?thesis
    using r1 r2 cartReducer_h_prefix[OF run] reads_after[OF run] assms(1,2)
    by (simp add: after)
qed

theorem cartReducer_pure_witness:
  "read_state example_heap 4 = read_state example_heap2 4 \<and>
   read_action example_heap 8 = read_action example_heap2 0 \<and>
   read_result (cartReducer_h example_heap2 4 0) =
     read_result (cartReducer_h example_heap 4 8) \<and>
   read_result (cartReducer_h example_heap 4 8) =
     Some (Inr \<lparr>status = ''updating'',
                cart = Some \<lparr>lines = [\<lparr>id_line = ''a'', quantity = 5\<rparr>,
                                      \<lparr>id_line = ''b'', quantity = 2\<rparr>]\<rparr>,
                lastValidCart = Some \<lparr>lines = [\<lparr>id_line = ''a'', quantity = 1\<rparr>,
                                               \<lparr>id_line = ''b'', quantity = 2\<rparr>]\<rparr>,
                error = None\<rparr>) \<and>
   take 9 (heap_after example_heap (cartReducer_h example_heap 4 8)) = example_heap"
proof -
  let ?s = "\<lparr>status = ''idle'',
             cart = Some \<lparr>lines = [\<lparr>id_line = ''a'', quantity = 1\<rparr>,
                                   \<lparr>id_line = ''b'', quantity = 2\<rparr>]\<rparr>,
             lastValidCart = None, error = None :: string option\<rparr>"
  let ?a = "UpdateLineItem [\<lparr>id_input = ''a'', quantity_input = Some 5\<rparr>,
                            \<lparr>id_input = ''b'', quantity_input = Some 0\<rparr>]
            :: (unit, unit, string) action"
  have s1: "read_state example_heap 4 = Some ?s" by code_simp
  have a1: "read_action example_heap 8 = Some ?a" by code_simp
  have s2: "read_state example_heap2 4 = Some ?s" by code_simp
  have a2: "read_action example_heap2 0 = Some ?a" by code_simp
  have len: "length example_heap = 9" by (simp add: example_heap_def)
  have red: "cartReducer ?s ?a =
     Inr \<lparr>status = ''updating'',
                cart = Some \<lparr>lines = [\<lparr>id_line = ''a'', quantity = 5\<rparr>,
                                      \<lparr>id_line = ''b'', quantity = 2\<rparr>]\<rparr>,
                lastValidCart = Some \<lparr>lines = [\<lparr>id_line = ''a'', quantity = 1\<rparr>,
                                               \<lparr>id_line = ''b'', quantity = 2\<rparr>]\<rparr>,
                error = None\<rparr>"
    by (simp add: update_line_def)
  from cartReducer_pure[OF s1 a1 s2 a2] show ?thesis
    using s1 a1 s2 a2 len red by (auto simp: prefix_def)
qed

end
